theory Spec2Isabelle
  imports Complex_Main
begin

section \<open>Python values used by the trainer\<close>

text \<open>
  Python floats, with the three special values the trainer distinguishes. Finite values are
  modelled by the real number they denote: the comparisons \<^verbatim>\<open><\<close> and \<^verbatim>\<open>!=\<close> of the source
  are exact on them. A sum or a product whose exact value is at or beyond the overflow bound
  of the doubles is an infinity; rounding within the range is outside the model.
\<close>

datatype pyfloat = Fin real | PInf | NInf | NaN

text \<open>
  The overflow bound of the doubles, half a unit in the last place above the largest double:
  from there on a result rounds to an infinity.
\<close>

definition float_overflow :: real where
  "float_overflow = 2 ^ 1024 - 2 ^ 970"

definition float_of_real :: "real \<Rightarrow> pyfloat" where
  "float_of_real r = (if float_overflow \<le> r then PInf
                      else if r \<le> - float_overflow then NInf else Fin r)"

text \<open>A float whose finite value is within the range of the doubles.\<close>

definition in_float_range :: "pyfloat \<Rightarrow> bool" where
  "in_float_range x = (case x of Fin r \<Rightarrow> \<bar>r\<bar> < float_overflow | PInf \<Rightarrow> True | NInf \<Rightarrow> True | NaN \<Rightarrow> True)"

text \<open>\<^verbatim>\<open>a != b\<close>: a NaN differs from everything, itself included.\<close>

fun float_ne :: "pyfloat \<Rightarrow> pyfloat \<Rightarrow> bool" where
  "float_ne NaN b = True"
| "float_ne a NaN = True"
| "float_ne (Fin x) (Fin y) = (x \<noteq> y)"
| "float_ne PInf PInf = False"
| "float_ne NInf NInf = False"
| "float_ne a b = True"

text \<open>\<^verbatim>\<open>a < b\<close>: false as soon as one side is a NaN.\<close>

fun float_lt :: "pyfloat \<Rightarrow> pyfloat \<Rightarrow> bool" where
  "float_lt NaN b = False"
| "float_lt a NaN = False"
| "float_lt (Fin x) (Fin y) = (x < y)"
| "float_lt a NInf = False"
| "float_lt NInf b = True"
| "float_lt PInf b = False"
| "float_lt a PInf = True"

text \<open>\<^verbatim>\<open>a + b\<close> on floats: opposite infinities give a NaN, and a finite sum can overflow.\<close>

fun float_add :: "pyfloat \<Rightarrow> pyfloat \<Rightarrow> pyfloat" where
  "float_add NaN b = NaN"
| "float_add a NaN = NaN"
| "float_add (Fin x) (Fin y) = float_of_real (x + y)"
| "float_add PInf NInf = NaN"
| "float_add NInf PInf = NaN"
| "float_add PInf b = PInf"
| "float_add a PInf = PInf"
| "float_add NInf b = NInf"
| "float_add a NInf = NInf"

text \<open>The exceptions of the source and of the library calls it makes.\<close>

datatype error =
    ZeroDivisionError
  | StopIteration
  | ValueError
  | StatisticsError
  | OverflowError
  | FileNotFoundError
  | KeyError
  | ReadError
  | BadGzipFile
  | EOFError
  | UnicodeDecodeError
  | JSONDecodeError
  | RuntimeError
  | KeyboardInterrupt
  | EarlyStopException
  | FileExistsError
  | IsADirectoryError

text \<open>
  \<^verbatim>\<open>x / n\<close> for a float (or the int 0) and an int count: Python raises ZeroDivisionError when
  the divisor is zero, whatever the dividend.
\<close>

fun float_div_count :: "pyfloat \<Rightarrow> nat \<Rightarrow> error + pyfloat" where
  "float_div_count x 0 = Inl ZeroDivisionError"
| "float_div_count (Fin x) n = Inr (Fin (x / real n))"
| "float_div_count x n = Inr x"

section \<open>Scorer\<close>

text \<open>
  \<^verbatim>\<open>Scorer\<close> accumulates the id sequences of every example of an epoch. \<^verbatim>\<open>scores\<close> is None
  until \<^verbatim>\<open>compute\<close> has run; then it is the named tuple (accuracy, leven, leven_per_char).
\<close>

type_synonym scores = "pyfloat \<times> pyfloat \<times> pyfloat"

record scorer =
  trues :: "nat list list"
  preds :: "nat list list"
  srcs :: "nat list list"
  scores :: "scores option"

definition Scorer_init :: scorer where
  "Scorer_init = \<lparr>trues = [], preds = [], srcs = [], scores = None\<rparr>"

text \<open>
  \<^verbatim>\<open>register_batch(hypotheses, targets, src)\<close>: the three tensors become lists of rows, and
  the loop over \<^verbatim>\<open>zip(exp, out, src)\<close> appends one row to each accumulator.
\<close>

definition register_batch ::
  "nat list list \<Rightarrow> nat list list \<Rightarrow> nat list list \<Rightarrow> scorer \<Rightarrow> scorer" where
  "register_batch hypotheses targets src sc =
     foldl (\<lambda>s (y_true, y_pred, x).
              s\<lparr>trues := trues s @ [y_true], preds := preds s @ [y_pred], srcs := srcs s @ [x]\<rparr>)
           sc (zip targets (zip hypotheses src))"

text \<open>
  \<^verbatim>\<open>sklearn.metrics.accuracy_score(t, p)\<close> on two id sequences: the share of positions where
  they agree. Sequences of different lengths are refused with a ValueError, and so are two
  empty sequences (by the current releases of scikit-learn; older ones gave a NaN there).
\<close>

definition accuracy_score :: "nat list \<Rightarrow> nat list \<Rightarrow> error + pyfloat" where
  "accuracy_score t p =
     (if length t \<noteq> length p then Inl ValueError
      else if t = [] then Inl ValueError
      else Inr (Fin (real (length (filter (\<lambda>(a, b). a = b) (zip t p))) / real (length t))))"

text \<open>\<^verbatim>\<open>leven.levenshtein\<close>: insertions, deletions and substitutions each cost one.\<close>

fun levenshtein :: "'a list \<Rightarrow> 'a list \<Rightarrow> nat" where
  "levenshtein [] ys = length ys"
| "levenshtein xs [] = length xs"
| "levenshtein (x # xs) (y # ys) =
     min (min (levenshtein xs (y # ys) + 1) (levenshtein (x # xs) ys + 1))
         (levenshtein xs ys + (if x = y then 0 else 1))"

text \<open>
  \<^verbatim>\<open>statistics.mean\<close>: StatisticsError on no data, else the sum over the count. The sum of
  finite values is exact (the module adds fractions), so it does not overflow; infinities
  and NaNs are added as floats.
\<close>

fun exact_add :: "pyfloat \<Rightarrow> pyfloat \<Rightarrow> pyfloat" where
  "exact_add (Fin x) (Fin y) = Fin (x + y)"
| "exact_add a b = float_add a b"

definition mean :: "pyfloat list \<Rightarrow> error + pyfloat" where
  "mean xs = (if xs = [] then Inl StatisticsError
              else float_div_count (foldl exact_add (Fin 0) xs) (length xs))"

text \<open>The list comprehension of \<^verbatim>\<open>compute\<close>: the first failing call ends it.\<close>

fun accuracies :: "(nat list \<times> nat list) list \<Rightarrow> error + pyfloat list" where
  "accuracies [] = Inr []"
| "accuracies ((t, p) # rest) =
     (case accuracy_score t p of
        Inl e \<Rightarrow> Inl e
      | Inr a \<Rightarrow> (case accuracies rest of Inl e \<Rightarrow> Inl e | Inr as \<Rightarrow> Inr (a # as)))"

text \<open>
  The loop of \<^verbatim>\<open>compute\<close> over the decoded texts: \<^verbatim>\<open>levenshteins[-1] / len(tr_true)\<close> divides
  two ints, which raises ZeroDivisionError on an empty true text.
\<close>

fun leven_loop ::
  "(string \<times> string) list \<Rightarrow> pyfloat list \<Rightarrow> pyfloat list \<Rightarrow> error + (pyfloat list \<times> pyfloat list)" where
  "leven_loop [] levenshteins leven_per_char = Inr (levenshteins, leven_per_char)"
| "leven_loop ((tr_true, tr_pred) # rest) levenshteins leven_per_char =
     (let d = levenshtein tr_true tr_pred in
      if length tr_true = 0 then Inl ZeroDivisionError
      else leven_loop rest (levenshteins @ [Fin (real d)])
             (leven_per_char @ [Fin (real d / real (length tr_true))]))"

text \<open>
  The vocabulary (\<^verbatim>\<open>LabelEncoder\<close>, boudams/encoder.py) is not among the sources. Its decoding
  \<^verbatim>\<open>transcribe_batch(reverse_batch(seqs, ignore=(pad,), masked=srcs))\<close> is the parameter
  \<open>decode\<close>: it gives the text of one id sequence, read with its source sequence.
\<close>

definition decode_batch ::
  "(nat list \<Rightarrow> nat list \<Rightarrow> string) \<Rightarrow> nat list list \<Rightarrow> nat list list \<Rightarrow> string list" where
  "decode_batch decode seqs masked = map (\<lambda>(ids, src). decode ids src) (zip seqs masked)"

definition compute :: "(nat list \<Rightarrow> nat list \<Rightarrow> string) \<Rightarrow> scorer \<Rightarrow> error + scorer" where
  "compute decode sc =
     (case accuracies (zip (trues sc) (preds sc)) of
        Inl e \<Rightarrow> Inl e
      | Inr accuracy \<Rightarrow>
     (case leven_loop (zip (decode_batch decode (trues sc) (srcs sc))
                           (decode_batch decode (preds sc) (srcs sc))) [] [] of
        Inl e \<Rightarrow> Inl e
      | Inr (levenshteins, leven_per_char) \<Rightarrow>
     (case mean accuracy of
        Inl e \<Rightarrow> Inl e
      | Inr a \<Rightarrow>
     (case mean levenshteins of
        Inl e \<Rightarrow> Inl e
      | Inr l \<Rightarrow>
     (case mean leven_per_char of
        Inl e \<Rightarrow> Inl e
      | Inr c \<Rightarrow> Inr (sc\<lparr>scores := Some (a, l, c)\<rparr>))))))"

text \<open>
  The accessors compute the scores on first use (\<^verbatim>\<open>if not self.scores\<close>; a named tuple of
  three fields is never falsy) and return one field; the scorer keeps the scores.
\<close>

definition ensure_scores :: "(nat list \<Rightarrow> nat list \<Rightarrow> string) \<Rightarrow> scorer \<Rightarrow> error + (scores \<times> scorer)" where
  "ensure_scores decode sc =
     (case scores sc of
        Some s \<Rightarrow> Inr (s, sc)
      | None \<Rightarrow> (case compute decode sc of
                   Inl e \<Rightarrow> Inl e
                 | Inr sc' \<Rightarrow> (case scores sc' of Some s \<Rightarrow> Inr (s, sc') | None \<Rightarrow> Inl RuntimeError)))"

definition get_accuracy :: "(nat list \<Rightarrow> nat list \<Rightarrow> string) \<Rightarrow> scorer \<Rightarrow> error + (pyfloat \<times> scorer)" where
  "get_accuracy decode sc =
     (case ensure_scores decode sc of Inl e \<Rightarrow> Inl e | Inr ((a, l, c), sc') \<Rightarrow> Inr (a, sc'))"

definition avg_levenshteins :: "(nat list \<Rightarrow> nat list \<Rightarrow> string) \<Rightarrow> scorer \<Rightarrow> error + (pyfloat \<times> scorer)" where
  "avg_levenshteins decode sc =
     (case ensure_scores decode sc of Inl e \<Rightarrow> Inl e | Inr ((a, l, c), sc') \<Rightarrow> Inr (l, sc'))"

definition avg_levenshteins_per_char :: "(nat list \<Rightarrow> nat list \<Rightarrow> string) \<Rightarrow> scorer \<Rightarrow> error + (pyfloat \<times> scorer)" where
  "avg_levenshteins_per_char decode sc =
     (case ensure_scores decode sc of Inl e \<Rightarrow> Inl e | Inr ((a, l, c), sc') \<Rightarrow> Inr (c, sc'))"

text \<open>
  Modelled from the spec: the decoding of \<^verbatim>\<open>LabelEncoder\<close> (\<^verbatim>\<open>reverse_batch\<close> followed by
  \<^verbatim>\<open>transcribe_batch\<close>; boudams/encoder.py is not among the sources), "decode true and
  predicted id sequences into text via the Vocabulary, ignoring pad ids". The ids equal to
  \<open>pad\<close> are dropped and every other id is replaced by its character \<open>itos\<close>; this simple
  vocabulary needs no masking by the source. It is one instance of the parameter \<open>decode\<close>,
  for evaluating the scorer on concrete examples.
\<close>

definition reverse_transcribe :: "(nat \<Rightarrow> char) \<Rightarrow> nat \<Rightarrow> nat list \<Rightarrow> nat list \<Rightarrow> string" where
  "reverse_transcribe itos pad ids src = map itos (filter (\<lambda>i. i \<noteq> pad) ids)"

text \<open>A vocabulary of four letters; id 0 is the pad token.\<close>

definition abcd_itos :: "nat \<Rightarrow> char" where
  "abcd_itos i = (if i = 1 then CHR ''a'' else if i = 2 then CHR ''b'' else if i = 3 then CHR ''c''
                  else if i = 4 then CHR ''d'' else CHR ''_'')"

text \<open>A fresh scorer after one example has been registered.\<close>

definition one_example :: "nat list \<Rightarrow> nat list \<Rightarrow> nat list \<Rightarrow> scorer" where
  "one_example t p s = \<lparr>trues = [t], preds = [p], srcs = [s], scores = None\<rparr>"

section \<open>Scores and perplexity\<close>

text \<open>The named tuple \<^verbatim>\<open>Score\<close>; its last field is None in the score \<^verbatim>\<open>run\<close> starts from.\<close>

record score =
  loss :: pyfloat
  perplexity :: pyfloat
  accuracy :: pyfloat
  leven :: pyfloat
  leven_per_char :: pyfloat
  scorer :: "scorer option"

text \<open>
  \<^verbatim>\<open>math.exp\<close>. A NaN and the two infinities are passed through (a NaN gives a NaN, without
  an exception). On a finite argument CPython calls the C library's \<^verbatim>\<open>exp\<close>, the parameter
  \<open>libm_exp\<close>, and raises OverflowError when the result is infinite, ValueError when it is
  a NaN.
\<close>

definition math_exp :: "(real \<Rightarrow> pyfloat) \<Rightarrow> pyfloat \<Rightarrow> error + pyfloat" where
  "math_exp libm_exp x =
     (case x of
        NaN \<Rightarrow> Inr NaN
      | PInf \<Rightarrow> Inr PInf
      | NInf \<Rightarrow> Inr (Fin 0)
      | Fin r \<Rightarrow>
          (case libm_exp r of
             NaN \<Rightarrow> Inl ValueError
           | PInf \<Rightarrow> Inl OverflowError
           | NInf \<Rightarrow> Inl OverflowError
           | Fin y \<Rightarrow> Inr (Fin y)))"

text \<open>
  The C library's \<^verbatim>\<open>exp\<close> on a finite double, rounding within the range left out: 0 when
  the exponential is at most half the smallest positive double, the infinity from the
  overflow bound on, and the exponential between the two.
\<close>

definition c_exp :: "real \<Rightarrow> pyfloat" where
  "c_exp r = (if exp r \<le> 1 / 2 ^ 1075 then Fin 0 else float_of_real (exp r))"

text \<open>
  \<^verbatim>\<open>Trainer._get_perplexity\<close>: \<^verbatim>\<open>try: return math.exp(loss)\<close>, and the bare \<^verbatim>\<open>except\<close> turns
  every exception into \<^verbatim>\<open>float("inf")\<close>.
\<close>

definition get_perplexity :: "(real \<Rightarrow> pyfloat) \<Rightarrow> pyfloat \<Rightarrow> pyfloat" where
  "get_perplexity libm_exp x = (case math_exp libm_exp x of Inr y \<Rightarrow> y | Inl e \<Rightarrow> PInf)"

section \<open>Collaborators of the trainer\<close>

text \<open>
  The names of the enum \<^verbatim>\<open>PlateauModes\<close>, which the argument \<^verbatim>\<open>mode\<close> of \<^verbatim>\<open>run\<close> selects with
  \<^verbatim>\<open>getattr(PlateauModes, mode)\<close>. The value of a member is the direction ("min" or "max").
  \<^verbatim>\<open>leven\<close> and \<^verbatim>\<open>leven_per_char\<close> are given the value "min" that \<^verbatim>\<open>loss\<close> already has: in a
  Python \<^verbatim>\<open>Enum\<close> that makes them aliases of the member \<^verbatim>\<open>loss\<close>, whose name is "loss".
\<close>

datatype plateau_modes = Mode_loss | Mode_accuracy | Mode_leven | Mode_leven_per_char

fun mode_value :: "plateau_modes \<Rightarrow> string" where
  "mode_value Mode_loss = ''min''"
| "mode_value Mode_accuracy = ''max''"
| "mode_value Mode_leven = ''min''"
| "mode_value Mode_leven_per_char = ''min''"

text \<open>
  \<^verbatim>\<open>getattr(score, self.mode.name)\<close>: the field of the score that the name of the member
  names, the loss for \<^verbatim>\<open>loss\<close> and for its two aliases.
\<close>

fun score_field :: "plateau_modes \<Rightarrow> score \<Rightarrow> pyfloat" where
  "score_field Mode_loss s = loss s"
| "score_field Mode_accuracy s = accuracy s"
| "score_field Mode_leven s = loss s"
| "score_field Mode_leven_per_char s = loss s"

text \<open>
  \<^verbatim>\<open>LRScheduler\<close> wraps PyTorch's \<^verbatim>\<open>ReduceLROnPlateau\<close>. The record holds the wrapper's
  \<^verbatim>\<open>mode\<close> and the state of the wrapped object that the trainer reads or sets:
  \<^verbatim>\<open>num_bad_epochs\<close>, \<^verbatim>\<open>patience\<close>, the learning rate of the optimizer
  (\<^verbatim>\<open>optimizer.param_groups[0]['lr']\<close>), and what its constructor was given.
\<close>

record lr_scheduler =
  sched_mode :: plateau_modes
  plateau_direction :: string
  factor :: real
  patience :: nat
  min_lrs :: real
  optimizer_lr :: real
  best :: pyfloat
  num_bad_epochs :: nat

text \<open>
  \<^verbatim>\<open>DatasetIterator\<close> (boudams/encoder.py, not among the sources), as the trainer uses it:
  the attribute \<^verbatim>\<open>batch_count\<close>, and the batches the generator of \<^verbatim>\<open>get_epoch\<close> yields.
\<close>

record 'b dataset_iterator =
  batch_count :: nat
  get_epoch :: "'b list"

text \<open>
  What the trainer calls and does not define, over model weights \<open>'w\<close> and batches \<open>'b\<close>:
  \<^item> \<open>forward_loss w batch evaluate\<close>: the forward pass and the loss of the model backend on
    one batch; it gives \<^verbatim>\<open>loss.item()\<close> and the predicted, true and source rows of the batch,
    or raises (a \<^verbatim>\<open>KeyboardInterrupt\<close> included);
  \<^item> \<open>optimizer_step rate w batch\<close>: \<^verbatim>\<open>loss.backward()\<close>, the clipping of the gradient and
    \<^verbatim>\<open>optimizer.step()\<close> at the current learning rate;
  \<^item> \<open>vocab_decode\<close>: the decoding of the vocabulary (the parameter of \<^verbatim>\<open>compute\<close>);
  \<^item> \<open>c_library_exp\<close>: the C library's exponential (the parameter of \<^verbatim>\<open>math.exp\<close>);
  \<^item> \<open>plateau_step\<close>: \<^verbatim>\<open>ReduceLROnPlateau.step\<close>.
\<close>

record ('w, 'b) externals =
  forward_loss :: "'w \<Rightarrow> 'b \<Rightarrow> bool \<Rightarrow> error + (pyfloat \<times> nat list list \<times> nat list list \<times> nat list list)"
  optimizer_step :: "real \<Rightarrow> 'w \<Rightarrow> 'b \<Rightarrow> 'w"
  vocab_decode :: "nat list \<Rightarrow> nat list \<Rightarrow> string"
  c_library_exp :: "real \<Rightarrow> pyfloat"
  plateau_step :: "lr_scheduler \<Rightarrow> pyfloat \<Rightarrow> lr_scheduler"

text \<open>
  Modelled from the spec: \<^verbatim>\<open>model.gradient\<close> of the backend (boudams/model, not among the
  sources), which "performs a forward pass, computes token-level cross-entropy loss ignoring
  pad positions, registers (target, predicted-argmax, source) sequences into the given
  Scorer" and returns the loss.
\<close>

definition gradient ::
  "('w, 'b) externals \<Rightarrow> 'w \<Rightarrow> 'b \<Rightarrow> bool \<Rightarrow> scorer \<Rightarrow> error + (pyfloat \<times> scorer)" where
  "gradient ext w batch evaluate sc =
     (case forward_loss ext w batch evaluate of
        Inl e \<Rightarrow> Inl e
      | Inr (l, hypotheses, targets, src) \<Rightarrow> Inr (l, register_batch hypotheses targets src sc))"

section \<open>Trainer: one epoch\<close>

text \<open>
  The loop of \<^verbatim>\<open>_train_epoch\<close> over \<^verbatim>\<open>range(0, iterator.batch_count)\<close>: \<^verbatim>\<open>next(batches)\<close>
  raises StopIteration when the generator is exhausted; each batch updates the weights and
  adds \<^verbatim>\<open>loss.item()\<close> to \<^verbatim>\<open>epoch_loss\<close>. An exception leaves the weights as they are then.
\<close>

fun train_batches ::
  "('w, 'b) externals \<Rightarrow> real \<Rightarrow> nat \<Rightarrow> 'b list \<Rightarrow> 'w \<Rightarrow> pyfloat \<Rightarrow> scorer
     \<Rightarrow> (error + (pyfloat \<times> scorer)) \<times> 'w" where
  "train_batches ext rate 0 batches w epoch_loss sc = (Inr (epoch_loss, sc), w)"
| "train_batches ext rate (Suc n) [] w epoch_loss sc = (Inl StopIteration, w)"
| "train_batches ext rate (Suc n) (b # batches) w epoch_loss sc =
     (case gradient ext w b False sc of
        Inl e \<Rightarrow> (Inl e, w)
      | Inr (l, sc') \<Rightarrow>
          train_batches ext rate n batches (optimizer_step ext rate w b) (float_add epoch_loss l) sc')"

text \<open>The loop of \<^verbatim>\<open>evaluate\<close>: the same, with \<^verbatim>\<open>evaluate=True\<close> and no update of the weights.\<close>

fun eval_batches ::
  "('w, 'b) externals \<Rightarrow> nat \<Rightarrow> 'b list \<Rightarrow> 'w \<Rightarrow> pyfloat \<Rightarrow> scorer \<Rightarrow> error + (pyfloat \<times> scorer)" where
  "eval_batches ext 0 batches w epoch_loss sc = Inr (epoch_loss, sc)"
| "eval_batches ext (Suc n) [] w epoch_loss sc = Inl StopIteration"
| "eval_batches ext (Suc n) (b # batches) w epoch_loss sc =
     (case gradient ext w b True sc of
        Inl e \<Rightarrow> Inl e
      | Inr (l, sc') \<Rightarrow> eval_batches ext n batches w (float_add epoch_loss l) sc')"

text \<open>
  The last two statements of both \<^verbatim>\<open>_train_epoch\<close> and \<^verbatim>\<open>evaluate\<close>:
  \<^verbatim>\<open>loss = epoch_loss / iterator.batch_count\<close>, then the \<^verbatim>\<open>Score\<close> whose arguments are
  evaluated from left to right.
\<close>

definition epoch_score :: "('w, 'b) externals \<Rightarrow> pyfloat \<Rightarrow> nat \<Rightarrow> scorer \<Rightarrow> error + score" where
  "epoch_score ext epoch_loss n sc =
     (case float_div_count epoch_loss n of
        Inl e \<Rightarrow> Inl e
      | Inr l \<Rightarrow>
     (case get_accuracy (vocab_decode ext) sc of
        Inl e \<Rightarrow> Inl e
      | Inr (a, sc1) \<Rightarrow>
     (case avg_levenshteins (vocab_decode ext) sc1 of
        Inl e \<Rightarrow> Inl e
      | Inr (d, sc2) \<Rightarrow>
     (case avg_levenshteins_per_char (vocab_decode ext) sc2 of
        Inl e \<Rightarrow> Inl e
      | Inr (c, sc3) \<Rightarrow>
          Inr \<lparr>loss = l, perplexity = get_perplexity (c_library_exp ext) l, accuracy = a,
               leven = d, leven_per_char = c, scorer = Some sc3\<rparr>))))"

text \<open>\<^verbatim>\<open>_train_epoch\<close> returns the score or raises; either way the weights are the updated ones.\<close>

definition train_epoch ::
  "('w, 'b) externals \<Rightarrow> real \<Rightarrow> 'b dataset_iterator \<Rightarrow> 'w \<Rightarrow> (error + score) \<times> 'w" where
  "train_epoch ext rate iterator w =
     (case train_batches ext rate (batch_count iterator) (get_epoch iterator) w (Fin 0) Scorer_init of
        (Inl e, w') \<Rightarrow> (Inl e, w')
      | (Inr (epoch_loss, sc), w') \<Rightarrow> (epoch_score ext epoch_loss (batch_count iterator) sc, w'))"

definition evaluate :: "('w, 'b) externals \<Rightarrow> 'b dataset_iterator \<Rightarrow> 'w \<Rightarrow> error + score" where
  "evaluate ext iterator w =
     (case eval_batches ext (batch_count iterator) (get_epoch iterator) w (Fin 0) Scorer_init of
        Inl e \<Rightarrow> Inl e
      | Inr (epoch_loss, sc) \<Rightarrow> epoch_score ext epoch_loss (batch_count iterator) sc)"

section \<open>A plateau scheduler and a scripted backend, for concrete runs\<close>

text \<open>
  \<^verbatim>\<open>ReduceLROnPlateau.step\<close> as PyTorch documents it, with its default relative threshold
  1e-4, no cooldown and eps = 1e-8: a metric that is not better than the best one by the
  threshold counts as a bad epoch; more bad epochs than \<^verbatim>\<open>patience\<close> multiply the learning
  rate by \<^verbatim>\<open>factor\<close>, never below \<^verbatim>\<open>min_lr\<close>, and reset the count. It is one instance of
  the parameter \<open>plateau_step\<close>.
\<close>

fun float_scale :: "pyfloat \<Rightarrow> real \<Rightarrow> pyfloat" where
  "float_scale (Fin x) c = float_of_real (x * c)"
| "float_scale x c = x"

definition is_better :: "lr_scheduler \<Rightarrow> pyfloat \<Rightarrow> bool" where
  "is_better s a =
     (if plateau_direction s = ''min'' then float_lt a (float_scale (best s) (1 - 1 / 10000))
      else float_lt (float_scale (best s) (1 + 1 / 10000)) a)"

definition reduce_lr :: "lr_scheduler \<Rightarrow> lr_scheduler" where
  "reduce_lr s =
     (let old_lr = optimizer_lr s; new_lr = max (old_lr * factor s) (min_lrs s)
      in if old_lr - new_lr > 1 / 100000000 then s\<lparr>optimizer_lr := new_lr\<rparr> else s)"

definition reduce_lr_on_plateau :: "lr_scheduler \<Rightarrow> pyfloat \<Rightarrow> lr_scheduler" where
  "reduce_lr_on_plateau s current =
     (let s1 = (if is_better s current then s\<lparr>best := current, num_bad_epochs := 0\<rparr>
                else s\<lparr>num_bad_epochs := num_bad_epochs s + 1\<rparr>)
      in if num_bad_epochs s1 > patience s1 then (reduce_lr s1)\<lparr>num_bad_epochs := 0\<rparr> else s1)"

text \<open>
  A backend whose weights are the number of optimizer steps taken so far and whose loss on
  any batch is read from a script indexed by the weights (a script entry may also be an
  exception the forward pass raises). Every batch holds one example, predicted as it is.
\<close>

definition scripted :: "(nat \<Rightarrow> error + pyfloat) \<Rightarrow> (nat, unit) externals" where
  "scripted script =
     \<lparr>forward_loss = (\<lambda>w b evaluate.
          case script w of Inl e \<Rightarrow> Inl e | Inr l \<Rightarrow> Inr (l, [[1]], [[1]], [[1]])),
      optimizer_step = (\<lambda>rate w b. Suc w),
      vocab_decode = reverse_transcribe abcd_itos 0,
      c_library_exp = c_exp,
      plateau_step = reduce_lr_on_plateau\<rparr>"

definition no_batches :: "unit dataset_iterator" where
  "no_batches = \<lparr>batch_count = 0, get_epoch = []\<rparr>"

definition one_batch :: "unit dataset_iterator" where
  "one_batch = \<lparr>batch_count = 1, get_epoch = [()]\<rparr>"

section \<open>Paths\<close>

text \<open>\<^verbatim>\<open>str.rfind\<close> for one character: the index of its last occurrence, or -1.\<close>

definition rfind :: "char \<Rightarrow> string \<Rightarrow> int" where
  "rfind c p = (if c \<in> set p then int (length p) - 1 - int (length (takeWhile (\<lambda>x. x \<noteq> c) (rev p)))
                else - 1)"

text \<open>
  \<^verbatim>\<open>os.path.splitext\<close> (POSIX): the extension starts at the last dot, when that dot comes
  after the last slash and some character between the two is not a dot.
\<close>

definition splitext :: "string \<Rightarrow> string \<times> string" where
  "splitext p =
     (let sepIndex = rfind CHR ''/'' p; dotIndex = rfind CHR ''.'' p
      in if dotIndex > sepIndex
            \<and> list_ex (\<lambda>c. c \<noteq> CHR ''.'')
                 (take (nat (dotIndex - (sepIndex + 1))) (drop (nat (sepIndex + 1)) p))
         then (take (nat dotIndex) p, drop (nat dotIndex) p)
         else (p, []))"

text \<open>
  \<^verbatim>\<open>os.path.dirname\<close> (POSIX): what stands before the last slash, without its trailing
  slashes unless it holds nothing else. A bare file name has the empty directory name.
\<close>

definition dirname :: "string \<Rightarrow> string" where
  "dirname p =
     (let i = nat (rfind CHR ''/'' p + 1); head = take i p
      in if head \<noteq> [] \<and> head \<noteq> replicate (length head) CHR ''/''
         then rev (dropWhile (\<lambda>c. c = CHR ''/'') (rev head))
         else head)"

text \<open>\<^verbatim>\<open>utils.ensure_ext(path, ext, infix)\<close>.\<close>

definition ensure_ext :: "string \<Rightarrow> string \<Rightarrow> string option \<Rightarrow> string" where
  "ensure_ext path ext infix_part =
     (let (path1, oldext) = splitext path;
          ext1 = (if take 1 ext = ''.'' then drop 1 ext else ext);
          oldext1 = (if take 1 oldext = ''.'' then drop 1 oldext else oldext);
          path2 = (case infix_part of None \<Rightarrow> path1 | Some i \<Rightarrow> path1 @ ''-'' @ i);
          path3 = (if oldext1 \<noteq> [] \<and> oldext1 \<noteq> ext1 then path2 @ ''.'' @ oldext1 else path2)
      in path3 @ ''.'' @ ext1)"

text \<open>\<^verbatim>\<open>str.replace(old, new)\<close>: every occurrence, from left to right, without overlap.\<close>

fun str_replace :: "string \<Rightarrow> string \<Rightarrow> string \<Rightarrow> string" where
  "str_replace old new [] = (if old = [] then new else [])"
| "str_replace old new (c # s) =
     (if old = [] then new @ c # str_replace old new s
      else if take (length old) (c # s) = old
      then new @ str_replace old new (drop (length old - 1) s)
      else c # str_replace old new s)"

section \<open>Files, archives and the console\<close>

text \<open>The dictionary of the property \<^verbatim>\<open>Seq2SeqTokenizer.settings\<close>.\<close>

record settings =
  enc_kernel_size :: nat
  dec_kernel_size :: nat
  enc_n_layers :: nat
  dec_n_layers :: nat
  hidden_size :: nat
  enc_hid_dim :: nat
  dec_hid_dim :: nat
  emb_enc_dim :: nat
  emb_dec_dim :: nat
  enc_dropout :: real
  dec_dropout :: real
  out_max_sentence_length :: nat
  system :: string

text \<open>
  A row of \<^verbatim>\<open>csv_content\<close>: the header of \<^verbatim>\<open>init_csv_content\<close>, or the epoch number with the
  train and dev scores whose fields the row prints.
\<close>

datatype csv_row = Csv_header | Csv_epoch nat score score

text \<open>
  What a file holds: the state dict written by \<^verbatim>\<open>torch.save\<close>, bytes, the metrics table, or
  a tar archive, the list of its named members in the order they were added.
\<close>

datatype 'w content =
    StateDict 'w
  | Bytes string
  | Csv "csv_row list"
  | Tar "(string \<times> 'w content) list"

text \<open>
  What the trainer does that can be observed from outside, in order: every \<^verbatim>\<open>torch.save\<close> to
  the temporary checkpoint, and every \<^verbatim>\<open>print\<close>.
\<close>

datatype 'w event =
    TorchSave string 'w
  | Print_line string
  | Print_train score
  | Print_val score
  | Print_scheduler lr_scheduler

record 'w world =
  files :: "string \<rightharpoonup> 'w content"
  dirs :: "string set"
  trace :: "'w event list"

text \<open>
  \<^verbatim>\<open>os.makedirs(name)\<close>: the empty name raises FileNotFoundError (there is no such directory to
  make), the name of an existing file FileExistsError. \<^verbatim>\<open>os.path.isdir(name)\<close> is \<open>name \<in> dirs\<close>,
  false for the empty name.
\<close>

definition makedirs :: "string \<Rightarrow> 'w world \<Rightarrow> error + 'w world" where
  "makedirs name wd =
     (if name = [] then Inl FileNotFoundError
      else if name \<in> dom (files wd) then Inl FileExistsError
      else Inr (wd\<lparr>dirs := insert name (dirs wd)\<rparr>))"

text \<open>
  Opening a path for writing and writing the content: the directory of the path must exist
  (the empty directory name is the current directory).
\<close>

definition open_w :: "string \<Rightarrow> 'w content \<Rightarrow> 'w world \<Rightarrow> error + 'w world" where
  "open_w path c wd =
     (if path \<in> dirs wd then Inl IsADirectoryError
      else if dirname path \<noteq> [] \<and> dirname path \<notin> dirs wd then Inl FileNotFoundError
      else Inr (wd\<lparr>files := (files wd)(path \<mapsto> c)\<rparr>))"

text \<open>
  A gzip file as \<^verbatim>\<open>gzip.GzipFile\<close> writes it: the magic bytes 1f 8b, the method byte 08, and
  the rest (flags, time, name, the compressed data and the trailer), the parameter
  \<open>deflate_rest\<close>. Reading gives no data for an empty file, refuses other magic bytes and
  another method with BadGzipFile, a file that ends after the magic bytes with EOFError, and
  hands the rest to \<open>inflate_rest\<close>.
\<close>

definition gzip_bytes :: "(string \<Rightarrow> string) \<Rightarrow> string \<Rightarrow> string" where
  "gzip_bytes deflate_rest data = CHR 0x1F # CHR 0x8B # CHR 0x08 # deflate_rest data"

definition gunzip :: "(string \<Rightarrow> error + string) \<Rightarrow> string \<Rightarrow> error + string" where
  "gunzip inflate_rest bs =
     (if bs = [] then Inr []
      else if take 2 bs \<noteq> [CHR 0x1F, CHR 0x8B] then Inl BadGzipFile
      else (case drop 2 bs of
              [] \<Rightarrow> Inl EOFError
            | m # rest \<Rightarrow> if m = CHR 0x08 then inflate_rest rest else Inl BadGzipFile))"

text \<open>
  Text is modelled by its UTF-8 bytes. \<^verbatim>\<open>bytes.decode()\<close> and reading a file opened in text mode
  decode UTF-8 and raise UnicodeDecodeError on bytes that are not well-formed UTF-8 (the
  table of well-formed byte sequences of the Unicode standard).
\<close>

definition is_cont :: "char \<Rightarrow> bool" where
  "is_cont c = (0x80 \<le> (of_char c :: nat) \<and> (of_char c :: nat) \<le> 0xBF)"

fun utf8_valid :: "string \<Rightarrow> bool" where
  "utf8_valid [] = True"
| "utf8_valid (c # cs) =
     (let b = (of_char c :: nat) in
      if b < 0x80 then utf8_valid cs
      else if 0xC2 \<le> b \<and> b \<le> 0xDF then
        (case cs of c1 # r \<Rightarrow> is_cont c1 \<and> utf8_valid r | _ \<Rightarrow> False)
      else if 0xE0 \<le> b \<and> b \<le> 0xEF then
        (case cs of c1 # c2 # r \<Rightarrow>
           is_cont c1 \<and> is_cont c2
           \<and> (if b = 0xE0 then 0xA0 \<le> (of_char c1 :: nat) else True)
           \<and> (if b = 0xED then (of_char c1 :: nat) \<le> 0x9F else True)
           \<and> utf8_valid r
         | _ \<Rightarrow> False)
      else if 0xF0 \<le> b \<and> b \<le> 0xF4 then
        (case cs of c1 # c2 # c3 # r \<Rightarrow>
           is_cont c1 \<and> is_cont c2 \<and> is_cont c3
           \<and> (if b = 0xF0 then 0x90 \<le> (of_char c1 :: nat) else True)
           \<and> (if b = 0xF4 then (of_char c1 :: nat) \<le> 0x8F else True)
           \<and> utf8_valid r
         | _ \<Rightarrow> False)
      else False)"

definition bytes_decode :: "string \<Rightarrow> error + string" where
  "bytes_decode bs = (if utf8_valid bs then Inr bs else Inl UnicodeDecodeError)"

text \<open>
  \<^verbatim>\<open>str.strip()\<close> removes the white space of \<^verbatim>\<open>str.isspace\<close> at both ends. The list holds the
  UTF-8 bytes of each such character: the ASCII ones, then U+0085, U+00A0, U+1680, U+2000 to
  U+200A, U+2028, U+2029, U+202F, U+205F and U+3000.
\<close>

definition white_space :: "string list" where
  "white_space =
     [[CHR 0x09], [CHR 0x0A], [CHR 0x0B], [CHR 0x0C], [CHR 0x0D],
      [CHR 0x1C], [CHR 0x1D], [CHR 0x1E], [CHR 0x1F], [CHR 0x20],
      [CHR 0xC2, CHR 0x85], [CHR 0xC2, CHR 0xA0], [CHR 0xE1, CHR 0x9A, CHR 0x80],
      [CHR 0xE2, CHR 0x80, CHR 0x80], [CHR 0xE2, CHR 0x80, CHR 0x81], [CHR 0xE2, CHR 0x80, CHR 0x82],
      [CHR 0xE2, CHR 0x80, CHR 0x83], [CHR 0xE2, CHR 0x80, CHR 0x84], [CHR 0xE2, CHR 0x80, CHR 0x85],
      [CHR 0xE2, CHR 0x80, CHR 0x86], [CHR 0xE2, CHR 0x80, CHR 0x87], [CHR 0xE2, CHR 0x80, CHR 0x88],
      [CHR 0xE2, CHR 0x80, CHR 0x89], [CHR 0xE2, CHR 0x80, CHR 0x8A], [CHR 0xE2, CHR 0x80, CHR 0xA8],
      [CHR 0xE2, CHR 0x80, CHR 0xA9], [CHR 0xE2, CHR 0x80, CHR 0xAF], [CHR 0xE2, CHR 0x81, CHR 0x9F],
      [CHR 0xE3, CHR 0x80, CHR 0x80]]"

text \<open>Dropping, at the front, every sequence of the list for as long as one stands there.\<close>

fun lstrip_seqs :: "string list \<Rightarrow> string \<Rightarrow> string" where
  "lstrip_seqs seqs [] = []"
| "lstrip_seqs seqs (c # cs) =
     (case find (\<lambda>ws. ws \<noteq> [] \<and> take (length ws) (c # cs) = ws) seqs of
        None \<Rightarrow> c # cs
      | Some ws \<Rightarrow> lstrip_seqs seqs (drop (length ws - 1) cs))"

definition strip :: "string \<Rightarrow> string" where
  "strip s = rev (lstrip_seqs (map rev white_space) (rev (lstrip_seqs white_space s)))"

section \<open>Tagger: settings, construction, save and load\<close>

text \<open>The four branches of the constructor on \<^verbatim>\<open>self.system\<close>; any other name builds the LSTM.\<close>

datatype backend_kind = Conv | Gru | BiGru | Lstm

definition select_system :: "string \<Rightarrow> backend_kind" where
  "select_system s = (if s = ''conv'' then Conv else if s = ''gru'' then Gru
                      else if s = ''bi-gru'' then BiGru else Lstm)"

text \<open>
  \<^verbatim>\<open>Seq2SeqTokenizer\<close>: its settings, its vocabulary, the weights of its model and its
  \<^verbatim>\<open>init_weights\<close> (None for the convolutional backend).
\<close>

record ('w, 'v) tagger =
  tagger_settings :: settings
  vocabulary :: 'v
  model :: 'w
  init_weights :: "('w \<Rightarrow> 'w) option"

text \<open>
  What saving and loading call and do not define: \<^verbatim>\<open>json.dumps\<close> and \<^verbatim>\<open>json.loads\<close> on the
  settings, \<^verbatim>\<open>vocabulary.dump()\<close> and \<^verbatim>\<open>LabelEncoder.load(json.load(f))\<close> on the text of a file,
  the two halves of gzip, and the construction and initialisation of the model of a backend.
\<close>

record ('w, 'v) persistence =
  json_dumps :: "settings \<Rightarrow> string"
  json_loads :: "string \<Rightarrow> error + settings"
  vocabulary_dump :: "'v \<Rightarrow> string"
  vocabulary_load :: "string \<Rightarrow> error + 'v"
  deflate_rest :: "string \<Rightarrow> string"
  inflate_rest :: "string \<Rightarrow> error + string"
  new_model :: "backend_kind \<Rightarrow> settings \<Rightarrow> 'v \<Rightarrow> 'w"
  weight_init :: "backend_kind \<Rightarrow> 'w \<Rightarrow> 'w"

text \<open>
  The constructor, called with the keywords of a settings dictionary: both hidden dimensions
  are \<^verbatim>\<open>hidden_size\<close> unless \<^verbatim>\<open>enc_hid_dim and dec_hid_dim\<close> holds (both non-zero).
\<close>

definition Seq2SeqTokenizer_init :: "('w, 'v) persistence \<Rightarrow> 'v \<Rightarrow> settings \<Rightarrow> ('w, 'v) tagger" where
  "Seq2SeqTokenizer_init ps vocab kw =
     (let both = (enc_hid_dim kw \<noteq> 0 \<and> dec_hid_dim kw \<noteq> 0);
          st = kw\<lparr>enc_hid_dim := (if both then enc_hid_dim kw else hidden_size kw),
                  dec_hid_dim := (if both then dec_hid_dim kw else hidden_size kw)\<rparr>;
          kind = select_system (system st)
      in \<lparr>tagger_settings = st, vocabulary = vocab, model = new_model ps kind st vocab,
          init_weights = (case kind of Conv \<Rightarrow> None | _ \<Rightarrow> Some (weight_init ps kind))\<rparr>)"

text \<open>
  \<^verbatim>\<open>utils.add_gzip_to_tar(string, subpath, tar)\<close> writes the encoded string through
  \<^verbatim>\<open>gzip.GzipFile\<close> and adds the gzip file to the archive under \<^verbatim>\<open>subpath\<close>.
\<close>

definition add_gzip_to_tar ::
  "('w, 'v) persistence \<Rightarrow> string \<Rightarrow> string \<Rightarrow> (string \<times> 'w content) list \<Rightarrow> (string \<times> 'w content) list" where
  "add_gzip_to_tar ps str subpath tar = tar @ [(subpath, Bytes (gzip_bytes (deflate_rest ps) str))]"

text \<open>\<^verbatim>\<open>tar.extractfile\<close> and \<^verbatim>\<open>tar.extract\<close>: the last member of that name, or a KeyError.\<close>

definition getmember :: "(string \<times> 'w content) list \<Rightarrow> string \<Rightarrow> error + 'w content" where
  "getmember tar name = (case map_of (rev tar) name of None \<Rightarrow> Inl KeyError | Some c \<Rightarrow> Inr c)"

text \<open>
  \<^verbatim>\<open>utils.get_gzip_from_tar(tar, fpath)\<close>:
  \<^verbatim>\<open>gzip.open(tar.extractfile(fpath)).read().decode().strip()\<close>.
\<close>

definition get_gzip_from_tar ::
  "('w, 'v) persistence \<Rightarrow> (string \<times> 'w content) list \<Rightarrow> string \<Rightarrow> error + string" where
  "get_gzip_from_tar ps tar member_path =
     (case getmember tar member_path of
        Inl e \<Rightarrow> Inl e
      | Inr (Bytes bs) \<Rightarrow>
          (case gunzip (inflate_rest ps) bs of
             Inl e \<Rightarrow> Inl e
           | Inr raw \<Rightarrow> (case bytes_decode raw of Inl e \<Rightarrow> Inl e | Inr txt \<Rightarrow> Inr (strip txt)))
      | Inr other \<Rightarrow> Inl BadGzipFile)"

text \<open>
  \<^verbatim>\<open>Trainer.save(fpath, csv_content)\<close>: the path gets the extension tar; its directory is made
  when \<^verbatim>\<open>os.path.isdir\<close> does not find it; a non-empty \<^verbatim>\<open>csv_content\<close> is written beside the
  archive; the archive gets the settings and the vocabulary, both through
  \<^verbatim>\<open>add_gzip_to_tar\<close>, and the state dict. The temporary files of \<^verbatim>\<open>utils.tmpfile\<close> are
  removed before \<^verbatim>\<open>save\<close> returns and are not modelled.
\<close>

definition save ::
  "('w, 'v) persistence \<Rightarrow> ('w, 'v) tagger \<Rightarrow> string \<Rightarrow> csv_row list \<Rightarrow> 'w world
     \<Rightarrow> (error + string) \<times> 'w world" where
  "save ps tg path csv wd =
     (let fpath1 = ensure_ext path ''tar'' None;
          dname = dirname fpath1
      in case (if dname \<notin> dirs wd then makedirs dname wd else Inr wd) of
           Inl e \<Rightarrow> (Inl e, wd)
         | Inr wd1 \<Rightarrow>
      (case (if csv \<noteq> [] then open_w (str_replace ''.tar'' ''.csv'' fpath1) (Csv csv) wd1
             else Inr wd1) of
           Inl e \<Rightarrow> (Inl e, wd1)
         | Inr wd2 \<Rightarrow>
      (let tar0 = add_gzip_to_tar ps (json_dumps ps (tagger_settings tg)) ''settings.json.zip'' [];
           tar1 = add_gzip_to_tar ps (vocabulary_dump ps (vocabulary tg)) ''vocabulary.json'' tar0;
           tar2 = tar1 @ [(''state_dict.pt'', StateDict (model tg))]
       in case open_w fpath1 (Tar tar2) wd2 of
            Inl e \<Rightarrow> (Inl e, wd2)
          | Inr wd3 \<Rightarrow> (Inr fpath1, wd3))))"

text \<open>
  The vocabulary step of \<^verbatim>\<open>load\<close>: \<^verbatim>\<open>tar.extract('vocabulary.json', path=tmppath)\<close>, then
  \<^verbatim>\<open>open(dictpath)\<close> in text mode and \<^verbatim>\<open>LabelEncoder.load(json.load(f))\<close>. The member is read
  as it is stored: it is not passed through gzip.
\<close>

definition load_vocabulary ::
  "('w, 'v) persistence \<Rightarrow> (string \<times> 'w content) list \<Rightarrow> error + 'v" where
  "load_vocabulary ps tar =
     (case getmember tar ''vocabulary.json'' of
        Inl e \<Rightarrow> Inl e
      | Inr (Bytes bs) \<Rightarrow>
          (case bytes_decode bs of Inl e \<Rightarrow> Inl e | Inr txt \<Rightarrow> vocabulary_load ps txt)
      | Inr other \<Rightarrow> Inl UnicodeDecodeError)"

text \<open>The last step of \<^verbatim>\<open>load\<close>: \<^verbatim>\<open>tar.extract('state_dict.pt')\<close> and \<^verbatim>\<open>torch.load\<close>.\<close>

definition load_state_dict :: "(string \<times> 'w content) list \<Rightarrow> error + 'w" where
  "load_state_dict tar =
     (case getmember tar ''state_dict.pt'' of
        Inl e \<Rightarrow> Inl e
      | Inr (StateDict w) \<Rightarrow> Inr w
      | Inr other \<Rightarrow> Inl RuntimeError)"

text \<open>
  \<^verbatim>\<open>Seq2SeqTokenizer.load(fpath)\<close>: the settings through \<^verbatim>\<open>get_gzip_from_tar\<close> and
  \<^verbatim>\<open>json.loads\<close>, then the vocabulary, then the constructor, then the state dict.
\<close>

definition load :: "('w, 'v) persistence \<Rightarrow> string \<Rightarrow> 'w world \<Rightarrow> error + ('w, 'v) tagger" where
  "load ps path wd =
     (case files wd (ensure_ext path ''tar'' None) of
        None \<Rightarrow> Inl FileNotFoundError
      | Some (Tar tar) \<Rightarrow>
          (case get_gzip_from_tar ps tar ''settings.json.zip'' of
             Inl e \<Rightarrow> Inl e
           | Inr txt \<Rightarrow>
          (case json_loads ps txt of
             Inl e \<Rightarrow> Inl e
           | Inr kw \<Rightarrow>
          (case load_vocabulary ps tar of
             Inl e \<Rightarrow> Inl e
           | Inr vocab \<Rightarrow>
          (let obj = Seq2SeqTokenizer_init ps vocab kw
           in case load_state_dict tar of
                Inl e \<Rightarrow> Inl e
              | Inr w \<Rightarrow> Inr (obj\<lparr>model := w\<rparr>)))))
      | Some other \<Rightarrow> Inl ReadError)"

section \<open>Trainer.run\<close>

text \<open>
  The arguments of \<^verbatim>\<open>run\<close> that decide what it does. The batch size, the clipping bound and
  the seed are part of the collaborators; \<^verbatim>\<open>mode\<close> is the member of \<^verbatim>\<open>PlateauModes\<close> its name
  selects.
\<close>

record ('w, 'v) run_args =
  lr :: real
  min_lr :: real
  lr_factor :: real
  lr_patience :: nat
  lr_grace_periode :: nat
  n_epochs :: nat
  fpath :: string
  mode :: plateau_modes
  debug :: "(('w, 'v) tagger \<Rightarrow> error option) option"

text \<open>
  \<^verbatim>\<open>LRScheduler(optimizer, factor, patience, min_lr, mode)\<close>: a \<^verbatim>\<open>ReduceLROnPlateau\<close> in the
  direction \<^verbatim>\<open>mode.value\<close>, on the optimizer whose learning rate is \<^verbatim>\<open>lr\<close>; \<^verbatim>\<open>step\<close> feeds it
  the field of the score that \<^verbatim>\<open>mode.name\<close> names; the property \<^verbatim>\<open>steps\<close> is its
  \<^verbatim>\<open>num_bad_epochs\<close>, the property \<^verbatim>\<open>lr\<close> is \<open>optimizer_lr\<close>.
\<close>

definition LRScheduler_init ::
  "real \<Rightarrow> plateau_modes \<Rightarrow> real \<Rightarrow> nat \<Rightarrow> real \<Rightarrow> lr_scheduler" where
  "LRScheduler_init rate m fct pat floor_lr =
     \<lparr>sched_mode = m, plateau_direction = mode_value m, factor = fct, patience = pat,
      min_lrs = floor_lr, optimizer_lr = rate,
      best = (if mode_value m = ''min'' then PInf else NInf), num_bad_epochs = 0\<rparr>"

definition LRScheduler_step :: "('w, 'b) externals \<Rightarrow> lr_scheduler \<Rightarrow> score \<Rightarrow> lr_scheduler" where
  "LRScheduler_step ext s sc = plateau_step ext s (score_field (sched_mode s) sc)"

definition steps :: "lr_scheduler \<Rightarrow> nat" where
  "steps s = num_bad_epochs s"

text \<open>\<^verbatim>\<open>torch.save(self.tagger.model.state_dict(), file_path)\<close>, to the temporary directory.\<close>

definition torch_save :: "string \<Rightarrow> 'w \<Rightarrow> 'w world \<Rightarrow> 'w world" where
  "torch_save file_path w wd =
     wd\<lparr>files := (files wd)(file_path \<mapsto> StateDict w), trace := trace wd @ [TorchSave file_path w]\<rparr>"

text \<open>
  \<^verbatim>\<open>Trainer._temp_save(file_path, best_score, current_score)\<close>: it writes the weights when the
  loss is not \<^verbatim>\<open>float("inf")\<close> and is below \<^verbatim>\<open>best_score\<close>, and it returns the best score, the
  new one after a write.
\<close>

definition temp_save :: "string \<Rightarrow> pyfloat \<Rightarrow> score \<Rightarrow> 'w \<Rightarrow> 'w world \<Rightarrow> pyfloat \<times> 'w world" where
  "temp_save file_path best_score current_score w wd =
     (if float_ne (loss current_score) PInf \<and> float_lt (loss current_score) best_score
      then (loss current_score, torch_save file_path w wd)
      else (best_score, wd))"

text \<open>
  What \<^verbatim>\<open>run\<close> changes while it runs: the tagger (the weights of its model), the scheduler,
  the local variables \<^verbatim>\<open>dev_score\<close> and \<^verbatim>\<open>csv_content\<close>, the files and the console. The local
  variable \<^verbatim>\<open>best_valid_loss\<close> is not among them: \<^verbatim>\<open>run\<close> assigns it once, before the loop.
\<close>

record ('w, 'v) trainer_state =
  tagger :: "('w, 'v) tagger"
  lr_sched :: lr_scheduler
  dev_score :: score
  csv_content :: "csv_row list"
  wd :: "'w world"

definition print :: "'w event list \<Rightarrow> ('w, 'v) trainer_state \<Rightarrow> ('w, 'v) trainer_state" where
  "print evs st = st\<lparr>wd := (wd st)\<lparr>trace := trace (wd st) @ evs\<rparr>\<rparr>"

text \<open>
  The body of the \<^verbatim>\<open>try\<close> block of one epoch. The result is the exception it raises, if any,
  with the state as the exception leaves it. The value that \<^verbatim>\<open>_temp_save\<close> returns is dropped,
  as in the statement \<^verbatim>\<open>self._temp_save(fid, best_valid_loss, dev_score)\<close>.
\<close>

definition epoch_body ::
  "('w, 'b) externals \<Rightarrow> ('w, 'v) run_args \<Rightarrow> 'b dataset_iterator \<Rightarrow> 'b dataset_iterator \<Rightarrow> string
     \<Rightarrow> pyfloat \<Rightarrow> nat \<Rightarrow> ('w, 'v) trainer_state \<Rightarrow> error option \<times> ('w, 'v) trainer_state" where
  "epoch_body ext args train_dataset dev_dataset fid best_valid_loss epoch st =
     (case train_epoch ext (optimizer_lr (lr_sched st)) train_dataset (model (tagger st)) of
        (Inl e, w1) \<Rightarrow> (Some e, st\<lparr>tagger := (tagger st)\<lparr>model := w1\<rparr>\<rparr>)
      | (Inr train_score, w1) \<Rightarrow>
     (let st1 = st\<lparr>tagger := (tagger st)\<lparr>model := w1\<rparr>\<rparr>
      in case evaluate ext dev_dataset w1 of
           Inl e \<Rightarrow> (Some e, st1)
         | Inr dev \<Rightarrow>
     (let st2 = st1\<lparr>dev_score := dev,
                    csv_content := csv_content st1 @ [Csv_epoch epoch train_score dev]\<rparr>;
          st3 = st2\<lparr>wd := snd (temp_save fid best_valid_loss dev w1 (wd st2))\<rparr>;
          st4 = st3\<lparr>lr_sched := LRScheduler_step ext (lr_sched st3) dev\<rparr>;
          st5 = print [Print_train train_score, Print_val dev, Print_scheduler (lr_sched st4),
                       Print_line []] st4
      in if steps (lr_sched st5) \<ge> lr_patience args \<and> optimizer_lr (lr_sched st5) < min_lr args
         then (Some EarlyStopException, st5)
         else
     (let st6 = (if epoch = lr_grace_periode args
                 then st5\<lparr>lr_sched := (lr_sched st5)\<lparr>patience := lr_patience args\<rparr>\<rparr>
                 else st5)
      in case debug args of
           None \<Rightarrow> (None, st6)
         | Some callback \<Rightarrow> (callback (tagger st6), st6)))))"

text \<open>
  The \<^verbatim>\<open>for\<close> loop over the epochs with its two handlers: \<^verbatim>\<open>except KeyboardInterrupt\<close> prints
  and leaves the loop (\<^verbatim>\<open>break\<close>); \<^verbatim>\<open>except EarlyStopException\<close> prints, and the loop goes on
  with the next epoch; any other exception leaves \<^verbatim>\<open>run\<close>.
\<close>

fun epoch_loop ::
  "('w, 'b) externals \<Rightarrow> ('w, 'v) run_args \<Rightarrow> 'b dataset_iterator \<Rightarrow> 'b dataset_iterator \<Rightarrow> string
     \<Rightarrow> pyfloat \<Rightarrow> nat list \<Rightarrow> ('w, 'v) trainer_state \<Rightarrow> error option \<times> ('w, 'v) trainer_state" where
  "epoch_loop ext args train_dataset dev_dataset fid best_valid_loss [] st = (None, st)"
| "epoch_loop ext args train_dataset dev_dataset fid best_valid_loss (epoch # later) st =
     (case epoch_body ext args train_dataset dev_dataset fid best_valid_loss epoch st of
        (None, st') \<Rightarrow> epoch_loop ext args train_dataset dev_dataset fid best_valid_loss later st'
      | (Some e, st') \<Rightarrow>
          if e = KeyboardInterrupt then (None, print [Print_line ''Interrupting training...''] st')
          else if e = EarlyStopException
          then epoch_loop ext args train_dataset dev_dataset fid best_valid_loss later
                 (print [Print_line ''Reached plateau for too long, stopping.''] st')
          else (Some e, st'))"

text \<open>
  What follows the loop: one more \<^verbatim>\<open>_temp_save\<close> with the last dev score; then
  \<^verbatim>\<open>torch.load(fid)\<close>, \<^verbatim>\<open>load_state_dict\<close> and \<^verbatim>\<open>os.remove(fid)\<close>, or the message of the handler
  of FileNotFoundError when the file is not there; then \<^verbatim>\<open>self.save(fpath, csv_content)\<close> and
  the last message.
\<close>

definition final_save ::
  "('w, 'v) persistence \<Rightarrow> ('w, 'v) run_args \<Rightarrow> string \<Rightarrow> pyfloat \<Rightarrow> ('w, 'v) trainer_state
     \<Rightarrow> error option \<times> ('w, 'v) trainer_state" where
  "final_save ps args fid best_valid_loss st =
     (let st1 = st\<lparr>wd := snd (temp_save fid best_valid_loss (dev_score st) (model (tagger st)) (wd st))\<rparr>
      in case (case files (wd st1) fid of
                 None \<Rightarrow> Inr (print [Print_line ''No model was saved during training''] st1)
               | Some (StateDict w) \<Rightarrow>
                   Inr (st1\<lparr>tagger := (tagger st1)\<lparr>model := w\<rparr>,
                            wd := (wd st1)\<lparr>files := (files (wd st1))(fid := None)\<rparr>\<rparr>)
               | Some other \<Rightarrow> Inl RuntimeError) of
           Inl e \<Rightarrow> (Some e, st1)
         | Inr st2 \<Rightarrow>
             (case save ps (tagger st2) (fpath args) (csv_content st2) (wd st2) of
                (Inl e, wd') \<Rightarrow> (Some e, st2\<lparr>wd := wd'\<rparr>)
              | (Inr p, wd') \<Rightarrow> (None, print [Print_line ''Saved !''] (st2\<lparr>wd := wd'\<rparr>))))"

text \<open>
  The state before the first epoch: the weights initialised when the tagger has an
  \<^verbatim>\<open>init_weights\<close>, the scheduler with the patience \<^verbatim>\<open>lr_grace_periode\<close>, the dev score "in case
  exception was run before eval", and the header of the metrics table.
\<close>

definition run_init ::
  "('w, 'v) run_args \<Rightarrow> ('w, 'v) tagger \<Rightarrow> 'w world \<Rightarrow> ('w, 'v) trainer_state" where
  "run_init args tg wd0 =
     \<lparr>tagger = (case init_weights tg of None \<Rightarrow> tg | Some f \<Rightarrow> tg\<lparr>model := f (model tg)\<rparr>),
      lr_sched = LRScheduler_init (lr args) (mode args) (lr_factor args) (lr_grace_periode args)
                   (min_lr args),
      dev_score = \<lparr>loss = PInf, perplexity = PInf, accuracy = NInf, leven = PInf,
                   leven_per_char = PInf, scorer = None\<rparr>,
      csv_content = [Csv_header], wd = wd0\<rparr>"

text \<open>
  \<^verbatim>\<open>Trainer.run\<close>. \<open>fid\<close> is the path of the temporary checkpoint, \<^verbatim>\<open>'/tmp/' + uuid1()\<close>.
  The result is the exception that leaves \<^verbatim>\<open>run\<close>, if any, and the final state.
\<close>

definition run ::
  "('w, 'b) externals \<Rightarrow> ('w, 'v) persistence \<Rightarrow> ('w, 'v) run_args
     \<Rightarrow> 'b dataset_iterator \<Rightarrow> 'b dataset_iterator \<Rightarrow> string \<Rightarrow> ('w, 'v) tagger \<Rightarrow> 'w world
     \<Rightarrow> error option \<times> ('w, 'v) trainer_state" where
  "run ext ps args train_dataset dev_dataset fid tg wd0 =
     (let best_valid_loss = PInf
      in case epoch_loop ext args train_dataset dev_dataset fid best_valid_loss
                [1 ..< n_epochs args + 1] (run_init args tg wd0) of
           (Some e, st) \<Rightarrow> (Some e, st)
         | (None, st) \<Rightarrow> final_save ps args fid best_valid_loss st)"

section \<open>A concrete tagger, codec and run\<close>

text \<open>The settings the constructor of the tagger has by default.\<close>

definition default_settings :: settings where
  "default_settings =
     \<lparr>enc_kernel_size = 3, dec_kernel_size = 3, enc_n_layers = 10, dec_n_layers = 10,
      hidden_size = 256, enc_hid_dim = 256, dec_hid_dim = 256, emb_enc_dim = 256, emb_dec_dim = 256,
      enc_dropout = 1 / 2, dec_dropout = 1 / 2, out_max_sentence_length = 150, system = ''bi-gru''\<rparr>"

text \<open>
  A codec for the tagger with the default settings, whose vocabulary is a string of letters
  and whose weights are a number: the JSON text of the settings names the backend, the
  vocabulary is dumped as a JSON string, and gzip stores the data as it is. Each \<open>load\<close>
  function reads back what its \<open>dump\<close> function writes.
\<close>

definition quoted :: "string \<Rightarrow> string" where
  "quoted s = CHR 0x22 # s @ [CHR 0x22]"

definition toy_persistence :: "(nat, string) persistence" where
  "toy_persistence =
     \<lparr>json_dumps = (\<lambda>st. ''{'' @ quoted ''system'' @ '': '' @ quoted (system st) @ ''}''),
      json_loads = (\<lambda>txt. if txt = ''{'' @ quoted ''system'' @ '': '' @ quoted ''bi-gru'' @ ''}''
                           then Inr default_settings else Inl JSONDecodeError),
      vocabulary_dump = quoted,
      vocabulary_load = (\<lambda>txt. if 2 \<le> length txt \<and> hd txt = CHR 0x22 \<and> last txt = CHR 0x22
                                then Inr (butlast (tl txt)) else Inl JSONDecodeError),
      deflate_rest = (\<lambda>data. data),
      inflate_rest = (\<lambda>rest. Inr rest),
      new_model = (\<lambda>kind st v. 0),
      weight_init = (\<lambda>kind w. w)\<rparr>"

definition toy_tagger :: "(nat, string) tagger" where
  "toy_tagger = \<lparr>tagger_settings = default_settings, vocabulary = ''abcd'', model = 0,
                  init_weights = Some (\<lambda>w. w)\<rparr>"

definition empty_world :: "nat world" where
  "empty_world = \<lparr>files = Map.empty, dirs = {}, trace = []\<rparr>"

text \<open>The default values of the arguments of \<^verbatim>\<open>run\<close>.\<close>

definition default_args :: "(nat, string) run_args" where
  "default_args =
     \<lparr>lr = 1 / 1000, min_lr = 1 / 1000000, lr_factor = 3 / 4, lr_patience = 10,
      lr_grace_periode = 10, n_epochs = 10, fpath = ''model.tar'', mode = Mode_loss, debug = None\<rparr>"

text \<open>
  A script of losses: the loss at weights \<open>w\<close> is the \<open>w\<close>-th entry of the list (1 beyond its
  end). With one batch per epoch the dev loss of epoch \<open>k\<close> is the \<open>k\<close>-th entry, counted from 0.
\<close>

definition losses :: "pyfloat list \<Rightarrow> nat \<Rightarrow> error + pyfloat" where
  "losses xs w = (if w < length xs then Inr (xs ! w) else Inr (Fin 1))"

text \<open>The score of an epoch of the scripted backend whose mean loss is \<open>l\<close>.\<close>

definition scripted_score :: "pyfloat \<Rightarrow> score" where
  "scripted_score l =
     \<lparr>loss = l, perplexity = get_perplexity c_exp l, accuracy = Fin 1, leven = Fin 0,
      leven_per_char = Fin 0,
      scorer = Some (one_example [1] [1] [1]\<lparr>scores := Some (Fin 1, Fin 0, Fin 0)\<rparr>)\<rparr>"

text \<open>
  The trace of a run, reduced to what the claims are about: the weights of every checkpoint
  write, the dev loss printed in every epoch, and the messages.
\<close>

datatype mark = Wrote nat | Dev_loss pyfloat | Said string

fun marks :: "nat event list \<Rightarrow> mark list" where
  "marks [] = []"
| "marks (TorchSave p w # evs) = Wrote w # marks evs"
| "marks (Print_val s # evs) = Dev_loss (loss s) # marks evs"
| "marks (Print_line l # evs) = (if l = [] then marks evs else Said l # marks evs)"
| "marks (ev # evs) = marks evs"

section \<open>Properties of the scorer\<close>

lemma register_batch_foldl:
  "foldl (\<lambda>s (y_true, y_pred, x).
            s\<lparr>trues := trues s @ [y_true], preds := preds s @ [y_pred], srcs := srcs s @ [x]\<rparr>) sc zs
   = sc\<lparr>trues := trues sc @ map fst zs,
         preds := preds sc @ map (fst \<circ> snd) zs,
         srcs := srcs sc @ map (snd \<circ> snd) zs\<rparr>"
  by (induction zs arbitrary: sc) (auto simp: case_prod_beta)

lemma zip3_first:
  "map fst (zip a (zip b c)) = take (min (length b) (min (length a) (length c))) a"
proof (induction a arbitrary: b c)
  case Nil
  then show ?case by simp
next
  case (Cons x a)
  then show ?case by (cases b; cases c; simp)
qed

lemma zip3_second:
  "map (fst \<circ> snd) (zip a (zip b c)) = take (min (length b) (min (length a) (length c))) b"
proof (induction a arbitrary: b c)
  case Nil
  then show ?case by simp
next
  case (Cons x a)
  then show ?case by (cases b; cases c; simp)
qed

lemma zip3_third:
  "map (snd \<circ> snd) (zip a (zip b c)) = take (min (length b) (min (length a) (length c))) c"
proof (induction a arbitrary: b c)
  case Nil
  then show ?case by simp
next
  case (Cons x a)
  then show ?case by (cases b; cases c; simp)
qed

text \<open>
  Claim C9. \<^verbatim>\<open>register_batch(hypotheses, targets, src)\<close> appends exactly
  \<open>min (len hypotheses) (len targets) (len src)\<close> entries to each of \<^verbatim>\<open>trues\<close>, \<^verbatim>\<open>preds\<close> and
  \<^verbatim>\<open>srcs\<close>, in input order: the first rows of \<^verbatim>\<open>targets\<close>, of \<^verbatim>\<open>hypotheses\<close> and of \<^verbatim>\<open>src\<close>.
  The surplus rows of a longer input are dropped, and no error is raised (the result is a
  scorer, whatever the three lengths are).
\<close>

theorem register_batch_appends_min:
  "trues (register_batch hypotheses targets src sc)
     = trues sc @ take (min (length hypotheses) (min (length targets) (length src))) targets
   \<and> preds (register_batch hypotheses targets src sc)
     = preds sc @ take (min (length hypotheses) (min (length targets) (length src))) hypotheses
   \<and> srcs (register_batch hypotheses targets src sc)
     = srcs sc @ take (min (length hypotheses) (min (length targets) (length src))) src
   \<and> scores (register_batch hypotheses targets src sc) = scores sc"
  unfolding register_batch_def register_batch_foldl zip3_first zip3_second zip3_third
  by simp

lemma accuracies_error: "accuracies zs = Inl e \<Longrightarrow> e = ValueError"
  by (induction zs arbitrary: e rule: accuracies.induct)
     (auto simp: accuracy_score_def split: if_splits sum.splits)

lemma accuracies_ok:
  "\<forall>(t, p) \<in> set zs. length t = length p \<and> t \<noteq> []
   \<Longrightarrow> \<exists>as. accuracies zs = Inr as \<and> length as = length zs"
  by (induction zs rule: accuracies.induct) (auto simp: accuracy_score_def)

lemma leven_loop_empty_true:
  "i < length zs \<Longrightarrow> fst (zs ! i) = [] \<Longrightarrow> leven_loop zs ls cs = Inl ZeroDivisionError"
proof (induction zs ls cs arbitrary: i rule: leven_loop.induct)
  case (1 ls cs)
  then show ?case by simp
next
  case (2 tr_true tr_pred rest ls cs)
  show ?case
  proof (cases "tr_true = []")
    case True
    then show ?thesis by simp
  next
    case False
    with 2 obtain j where j: "i = Suc j" by (cases i) auto
    with 2 False show ?thesis by (simp add: Let_def)
  qed
qed

text \<open>
  Claim C10, as the code has it. If the true sequence of some registered example decodes to
  the empty text, \<^verbatim>\<open>compute\<close> returns no metric values: it raises the ZeroDivisionError of
  \<^verbatim>\<open>levenshteins[-1] / len(tr_true)\<close>, unless \<^verbatim>\<open>accuracy_score\<close> has already raised its ValueError
  in the list comprehension that runs before the loop. When every registered pair of a true
  and a predicted row has the same non-zero length, \<^verbatim>\<open>accuracy_score\<close> does not raise and the
  error is the division by zero.
\<close>

theorem compute_empty_true_text:
  assumes "i < length (trues sc)" and "i < length (preds sc)" and "i < length (srcs sc)"
    and "decode (trues sc ! i) (srcs sc ! i) = []"
  shows "(compute decode sc = Inl ZeroDivisionError \<or> compute decode sc = Inl ValueError)
       \<and> ((\<forall>(t, p) \<in> set (zip (trues sc) (preds sc)). length t = length p \<and> t \<noteq> [])
            \<longrightarrow> compute decode sc = Inl ZeroDivisionError)"
proof -
  let ?zs = "zip (decode_batch decode (trues sc) (srcs sc)) (decode_batch decode (preds sc) (srcs sc))"
  have len: "i < length ?zs"
    using assms by (simp add: decode_batch_def)
  have "fst (?zs ! i) = []"
    using assms by (simp add: decode_batch_def)
  with len have loop: "leven_loop ?zs [] [] = Inl ZeroDivisionError"
    by (rule leven_loop_empty_true)
  have a: "compute decode sc = Inl ZeroDivisionError \<or> compute decode sc = Inl ValueError"
    using loop accuracies_error [of "zip (trues sc) (preds sc)"]
    by (auto simp: compute_def split: sum.splits)
  have b: "compute decode sc = Inl ZeroDivisionError"
    if "\<forall>(t, p) \<in> set (zip (trues sc) (preds sc)). length t = length p \<and> t \<noteq> []"
    using loop accuracies_ok [OF that] by (auto simp: compute_def)
  from a b show ?thesis by blast
qed

text \<open>
  The hypotheses of C10 hold for a scorer whose only example has the true row (pad, pad) and
  the predicted row (a, pad): the true text is empty and \<^verbatim>\<open>compute\<close> raises ZeroDivisionError.
\<close>

theorem compute_empty_true_text_witness:
  "compute (reverse_transcribe abcd_itos 0) (one_example [0, 0] [1, 0] [1, 2]) = Inl ZeroDivisionError"
  using compute_empty_true_text [of 0 "one_example [0, 0] [1, 0] [1, 2]" "reverse_transcribe abcd_itos 0"]
  by (simp add: one_example_def reverse_transcribe_def)

text \<open>
  Claim C10 as stated fails when a true and a predicted row differ in length. The first
  example has the true row (a) and the predicted row (a, b); the second has the true row
  (pad, pad), which decodes to the empty text. \<^verbatim>\<open>compute\<close> raises the ValueError of
  \<^verbatim>\<open>accuracy_score\<close> on the first pair and never reaches the division.
\<close>

theorem compute_empty_true_text_counterexample:
  "reverse_transcribe abcd_itos 0 [0, 0] [1, 2] = []
   \<and> compute (reverse_transcribe abcd_itos 0)
         (register_batch [[1, 2], [1, 0]] [[1], [0, 0]] [[1], [1, 2]] Scorer_init)
       = Inl ValueError
   \<and> ValueError \<noteq> ZeroDivisionError"
  by (simp add: reverse_transcribe_def register_batch_def Scorer_init_def compute_def
      accuracy_score_def)

lemma exact_add_zero: "exact_add (Fin 0) (Fin x) = Fin x"
  by simp

lemma mean_single: "mean [Fin x] = Inr (Fin x)"
  by (simp add: mean_def)

text \<open>
  The decoding of the vocabulary maps a row without pad id to its text id by id.
\<close>

lemma reverse_transcribe_no_pad:
  "pad \<notin> set ids \<Longrightarrow> reverse_transcribe itos pad ids src = map itos ids"
  by (induction ids) (auto simp: reverse_transcribe_def)

text \<open>
  Claim C6. A scorer holds exactly one registered example. Its true row decodes to "abc" and
  its predicted row to "abd", and no pad id takes part in the comparison: each row holds the
  ids of the characters of its text and nothing else (the decoding maps the row, id by id,
  to its text), distinct ids standing for distinct characters. Then \<^verbatim>\<open>compute\<close> yields token
  accuracy 2/3, edit distance 1 and edit distance per character 1/3.
\<close>

theorem compute_abc_abd:
  assumes "trues sc = [t]" and "preds sc = [p]" and "srcs sc = [s]"
    and "decode t s = ''abc''" and "decode p s = ''abd''"
    and "decode t s = map itos t" and "decode p s = map itos p"
    and "inj_on itos (set t \<union> set p)"
  shows "compute decode sc = Inr (sc\<lparr>scores := Some (Fin (2 / 3), Fin 1, Fin (1 / 3))\<rparr>)"
proof -
  from assms(4,6) obtain t1 t2 t3 where t: "t = [t1, t2, t3]"
    and ti: "itos t1 = CHR ''a''" "itos t2 = CHR ''b''" "itos t3 = CHR ''c''"
    by (auto simp: map_eq_Cons_conv)
  from assms(5,7) obtain p1 p2 p3 where p: "p = [p1, p2, p3]"
    and pi: "itos p1 = CHR ''a''" "itos p2 = CHR ''b''" "itos p3 = CHR ''d''"
    by (auto simp: map_eq_Cons_conv)
  have eq1: "t1 = p1"
    by (rule inj_onD [OF assms(8)]) (simp_all add: t p ti pi)
  have eq2: "t2 = p2"
    by (rule inj_onD [OF assms(8)]) (simp_all add: t p ti pi)
  have ne: "t3 \<noteq> p3"
  proof
    assume "t3 = p3"
    then have "itos t3 = itos p3" by simp
    then show False by (simp add: ti pi)
  qed
  have acc: "accuracy_score t p = Inr (Fin (2 / 3))"
    using ne by (simp add: accuracy_score_def t p eq1 eq2)
  have lev: "levenshtein ''abc'' ''abd'' = 1"
    by simp
  show ?thesis
    using assms(1-5) acc lev by (simp add: compute_def decode_batch_def mean_single Let_def)
qed

text \<open>The rows (a, b, c) and (a, b, d) of the four-letter vocabulary, with no pad id.\<close>

theorem compute_abc_abd_witness:
  "compute (reverse_transcribe abcd_itos 0) (one_example [1, 2, 3] [1, 2, 4] [1, 2, 3]) =
     Inr (one_example [1, 2, 3] [1, 2, 4] [1, 2, 3]\<lparr>scores := Some (Fin (2 / 3), Fin 1, Fin (1 / 3))\<rparr>)"
proof -
  have inj: "inj_on abcd_itos (set [1, 2, 3] \<union> set [1, 2, 4])"
    by (auto simp: inj_on_def abcd_itos_def split: if_splits)
  have d1: "reverse_transcribe abcd_itos 0 [1, 2, 3] [1, 2, 3] = ''abc''"
    by (simp add: reverse_transcribe_def abcd_itos_def)
  have d2: "reverse_transcribe abcd_itos 0 [1, 2, 4] [1, 2, 3] = ''abd''"
    by (simp add: reverse_transcribe_def abcd_itos_def)
  have m1: "reverse_transcribe abcd_itos 0 [1, 2, 3] [1, 2, 3] = map abcd_itos [1, 2, 3]"
    by (simp add: reverse_transcribe_def)
  have m2: "reverse_transcribe abcd_itos 0 [1, 2, 4] [1, 2, 3] = map abcd_itos [1, 2, 4]"
    by (simp add: reverse_transcribe_def)
  have "trues (one_example [1, 2, 3] [1, 2, 4] [1, 2, 3]) = [[1, 2, 3]]"
    and "preds (one_example [1, 2, 3] [1, 2, 4] [1, 2, 3]) = [[1, 2, 4]]"
    and "srcs (one_example [1, 2, 3] [1, 2, 4] [1, 2, 3]) = [[1, 2, 3]]"
    by (simp_all add: one_example_def)
  then show ?thesis
    using d1 d2 m1 m2 inj by (rule compute_abc_abd)
qed

text \<open>
  When the rows do carry pad ids the caller has not removed, \<^verbatim>\<open>accuracy_score\<close> counts the
  pad positions too: the rows (a, b, c, pad) and (a, b, d, pad) have the accuracy 3/4.
\<close>

lemma compute_padded_rows:
  "compute (reverse_transcribe abcd_itos 0) (one_example [1, 2, 3, 0] [1, 2, 4, 0] [1, 2, 3, 0]) =
     Inr (one_example [1, 2, 3, 0] [1, 2, 4, 0] [1, 2, 3, 0]
            \<lparr>scores := Some (Fin (3 / 4), Fin 1, Fin (1 / 3))\<rparr>)"
  by (simp add: one_example_def reverse_transcribe_def abcd_itos_def compute_def decode_batch_def
      accuracy_score_def mean_single Let_def)

section \<open>Properties of the perplexity\<close>

text \<open>
  Claim C5, as the code has it. \<^verbatim>\<open>_get_perplexity\<close> never raises (it is a total function into
  the floats). It returns what \<^verbatim>\<open>math.exp\<close> returns whenever \<^verbatim>\<open>math.exp\<close> returns: a NaN for
  a NaN loss, the infinity for an infinite loss, 0 for a loss of minus infinity and the
  exponential for a finite loss in range. It returns the infinity exactly where \<^verbatim>\<open>math.exp\<close>
  raises: on a finite loss whose exponential is out of the range of the floats.
\<close>

theorem get_perplexity_cases:
  "get_perplexity libm_exp NaN = NaN
   \<and> get_perplexity libm_exp PInf = PInf
   \<and> get_perplexity libm_exp NInf = Fin 0
   \<and> get_perplexity libm_exp (Fin r) =
       (case libm_exp r of Fin y \<Rightarrow> Fin y | PInf \<Rightarrow> PInf | NInf \<Rightarrow> PInf | NaN \<Rightarrow> PInf)"
  by (simp add: get_perplexity_def math_exp_def split: pyfloat.splits)

text \<open>
  Claim C5 as stated fails on a NaN loss: \<^verbatim>\<open>math.exp\<close> does not raise on it, so the perplexity is
  a NaN and not the infinity.
\<close>

theorem get_perplexity_nan_counterexample:
  "get_perplexity c_exp NaN = NaN \<and> NaN \<noteq> PInf"
  by (simp add: get_perplexity_def math_exp_def)

lemma float_overflow_large: "1000000 < float_overflow"
  by (simp add: float_overflow_def)

lemma float_of_real_small: "\<bar>r\<bar> \<le> 1000000 \<Longrightarrow> float_of_real r = Fin r"
  using float_overflow_large unfolding float_of_real_def by (auto simp: abs_le_iff)

lemma in_float_range_small:
  "\<bar>r\<bar> \<le> 1000000 \<Longrightarrow> in_float_range (Fin r)"
  "in_float_range PInf" "in_float_range NInf" "in_float_range NaN"
  using float_overflow_large by (simp_all add: in_float_range_def)

lemma get_perplexity_c_exp:
  "get_perplexity c_exp (Fin r) =
     (if exp r \<le> 1 / 2 ^ 1075 then Fin 0 else if float_overflow \<le> exp r then PInf else Fin (exp r))"
proof -
  have "\<not> exp r \<le> - float_overflow"
    using float_overflow_large exp_gt_zero [of r] by linarith
  then show ?thesis
    by (simp add: get_perplexity_def math_exp_def c_exp_def float_of_real_def)
qed

section \<open>Properties of one epoch\<close>

text \<open>
  Claim C7. For every dataset iterator whose batch count is zero, a training epoch
  (\<^verbatim>\<open>_train_epoch\<close>) and an evaluation epoch (\<^verbatim>\<open>evaluate\<close>) raise an error, the
  ZeroDivisionError of \<^verbatim>\<open>epoch_loss / iterator.batch_count\<close>, and return no score; the weights
  are left as they were.
\<close>

theorem empty_epoch_raises:
  assumes "batch_count iterator = 0"
  shows "train_epoch ext rate iterator w = (Inl ZeroDivisionError, w)
       \<and> evaluate ext iterator w = Inl ZeroDivisionError"
  using assms by (simp add: train_epoch_def evaluate_def epoch_score_def)

text \<open>An iterator with no batch, run with the scripted backend.\<close>

theorem empty_epoch_raises_witness:
  "batch_count no_batches = 0
   \<and> train_epoch (scripted (\<lambda>w. Inr (Fin 2))) (1 / 1000) no_batches 0 = (Inl ZeroDivisionError, 0)
   \<and> evaluate (scripted (\<lambda>w. Inr (Fin 2))) no_batches 0 = Inl ZeroDivisionError"
  using empty_epoch_raises [of no_batches "scripted (\<lambda>w. Inr (Fin 2))" "1 / 1000" 0]
  by (simp add: no_batches_def)

section \<open>Properties of the paths\<close>

text \<open>The three examples of the docstring of \<^verbatim>\<open>ensure_ext\<close>.\<close>

lemma ensure_ext_doctests:
  "ensure_ext ''model.pt'' ''pt'' (Some ''0.87'') = ''model-0.87.pt''"
  "ensure_ext ''model.test'' ''pt'' (Some ''0.87'') = ''model-0.87.test.pt''"
  "ensure_ext ''model.test'' ''test'' (Some ''pie'') = ''model-pie.test''"
  by (simp_all add: ensure_ext_def splitext_def rfind_def)

text \<open>The default path of \<^verbatim>\<open>run\<close> and of \<^verbatim>\<open>save\<close> is a bare file name: it has no directory.\<close>

lemma default_fpath:
  "ensure_ext ''model.tar'' ''tar'' None = ''model.tar''"
  "dirname ''model.tar'' = []"
  by (simp_all add: ensure_ext_def splitext_def dirname_def rfind_def)

lemma out_fpath:
  "ensure_ext ''out/model.tar'' ''tar'' None = ''out/model.tar''"
  "dirname ''out/model.tar'' = ''out''"
  "str_replace ''.tar'' ''.csv'' ''out/model.tar'' = ''out/model.csv''"
  "dirname ''out/model.csv'' = ''out''"
  by (simp_all add: ensure_ext_def splitext_def dirname_def rfind_def)

section \<open>Properties of saving and loading\<close>

lemma gzip_not_text: "bytes_decode (gzip_bytes d s) = Inl UnicodeDecodeError"
  by (simp add: bytes_decode_def gzip_bytes_def)

text \<open>What \<^verbatim>\<open>save\<close> leaves under the archive path when it returns.\<close>

lemma save_files:
  assumes "save ps tg path csv world = (Inr p, world')"
  shows "p = ensure_ext path ''tar'' None \<and>
     files world' p =
       Some (Tar [(''settings.json.zip'',
                    Bytes (gzip_bytes (deflate_rest ps) (json_dumps ps (tagger_settings tg)))),
                  (''vocabulary.json'',
                    Bytes (gzip_bytes (deflate_rest ps) (vocabulary_dump ps (vocabulary tg)))),
                  (''state_dict.pt'', StateDict (model tg))])"
  using assms
  by (auto simp: save_def Let_def open_w_def add_gzip_to_tar_def split: sum.splits if_splits)

text \<open>
  Whatever the codec and the tagger are, \<^verbatim>\<open>load\<close> raises on an archive that \<^verbatim>\<open>save\<close> has
  written: the member \<^verbatim>\<open>vocabulary.json\<close> is a gzip file and \<^verbatim>\<open>load\<close> reads it as text.
\<close>

lemma load_after_save_fails:
  assumes "save ps tg path csv world = (Inr p, world')"
  shows "\<exists>e. load ps path world' = Inl e"
proof -
  from save_files [OF assms] obtain tar where
    f: "files world' (ensure_ext path ''tar'' None) = Some (Tar tar)"
    and v: "load_vocabulary ps tar = Inl UnicodeDecodeError"
    by (auto simp: load_vocabulary_def getmember_def gzip_not_text)
  show ?thesis
    unfolding load_def f using v by (auto simp: Let_def split: sum.splits)
qed

lemma toy_persistence_fields:
  "json_dumps toy_persistence st = ''{'' @ quoted ''system'' @ '': '' @ quoted (system st) @ ''}''"
  "json_loads toy_persistence txt =
     (if txt = ''{'' @ quoted ''system'' @ '': '' @ quoted ''bi-gru'' @ ''}''
      then Inr default_settings else Inl JSONDecodeError)"
  "vocabulary_dump toy_persistence = quoted"
  "deflate_rest toy_persistence data = data"
  "inflate_rest toy_persistence rest = Inr rest"
  by (simp_all add: toy_persistence_def)

text \<open>
  Claim C2 fails on the code. The tagger with the default settings is saved to
  \<^verbatim>\<open>out/model.tar\<close>: \<^verbatim>\<open>save\<close> returns the path, and the settings can be read back from the archive
  through \<^verbatim>\<open>get_gzip_from_tar\<close>. \<^verbatim>\<open>load\<close> on that archive raises UnicodeDecodeError: \<^verbatim>\<open>save\<close> has
  written \<^verbatim>\<open>vocabulary.json\<close> through \<^verbatim>\<open>add_gzip_to_tar\<close>, and \<^verbatim>\<open>load\<close> opens the extracted member
  as a text file. Read the way the settings are read, the member gives the dumped vocabulary.
\<close>

theorem load_of_saved_archive_raises:
  "fst (save toy_persistence toy_tagger ''out/model.tar'' [Csv_header] empty_world) = Inr ''out/model.tar''
   \<and> load toy_persistence ''out/model.tar''
         (snd (save toy_persistence toy_tagger ''out/model.tar'' [Csv_header] empty_world))
       = Inl UnicodeDecodeError
   \<and> get_gzip_from_tar toy_persistence
         (add_gzip_to_tar toy_persistence (vocabulary_dump toy_persistence (vocabulary toy_tagger))
            ''vocabulary.json'' []) ''vocabulary.json''
       = Inr (quoted ''abcd'')"
  by (simp add: save_def load_def out_fpath makedirs_def open_w_def add_gzip_to_tar_def Let_def
      empty_world_def toy_tagger_def toy_persistence_fields get_gzip_from_tar_def getmember_def
      gunzip_def gzip_bytes_def bytes_decode_def strip_def white_space_def quoted_def
      default_settings_def load_vocabulary_def)

section \<open>Properties of the training loop\<close>

lemma one_example_scores:
  "compute (reverse_transcribe abcd_itos 0) (one_example [1] [1] [1])
     = Inr (one_example [1] [1] [1]\<lparr>scores := Some (Fin 1, Fin 0, Fin 0)\<rparr>)"
  by (simp add: one_example_def reverse_transcribe_def abcd_itos_def compute_def decode_batch_def
      accuracy_score_def mean_single Let_def)

lemma float_add_zero: "in_float_range l \<Longrightarrow> float_add (Fin 0) l = l"
  by (cases l) (auto simp: in_float_range_def float_of_real_def)

lemma float_div_one: "float_div_count l (Suc 0) = Inr l"
  by (cases l) simp_all

text \<open>An epoch of the scripted backend over one batch: its score, and one more optimizer step.\<close>

lemma scripted_train_epoch:
  "script w = Inr l \<Longrightarrow> in_float_range l \<Longrightarrow>
   train_epoch (scripted script) rate one_batch w = (Inr (scripted_score l), Suc w)"
  using one_example_scores
  by (simp add: train_epoch_def one_batch_def scripted_def gradient_def register_batch_def
      Scorer_init_def epoch_score_def get_accuracy_def avg_levenshteins_def
      avg_levenshteins_per_char_def ensure_scores_def one_example_def scripted_score_def
      float_add_zero float_div_one)

lemma scripted_evaluate:
  "script w = Inr l \<Longrightarrow> in_float_range l \<Longrightarrow>
   evaluate (scripted script) one_batch w = Inr (scripted_score l)"
  using one_example_scores
  by (simp add: evaluate_def one_batch_def scripted_def gradient_def register_batch_def
      Scorer_init_def epoch_score_def get_accuracy_def avg_levenshteins_def
      avg_levenshteins_per_char_def ensure_scores_def one_example_def scripted_score_def
      float_add_zero float_div_one)

lemma scripted_plateau_step: "plateau_step (scripted script) = reduce_lr_on_plateau"
  by (simp add: scripted_def)

lemma loss_scripted_score: "loss (scripted_score l) = l"
  by (simp add: scripted_score_def)

lemma epochs_upto:
  "[Suc 0 ..< 2] = [1]"
  "[Suc 0 ..< 3] = [1, 2]"
  "[Suc 0 ..< 4] = [1, 2, 3]"
  "[Suc 0 ..< 5] = [1, 2, 3, 4]"
  "[Suc 0 ..< 6] = [1, 2, 3, 4, 5]"
  by (simp_all add: upt_rec)

lemmas run_unfold =
  run_def run_init_def default_args_def toy_tagger_def empty_world_def epoch_body_def
  scripted_train_epoch scripted_evaluate losses_def Let_def temp_save_def torch_save_def
  LRScheduler_init_def LRScheduler_step_def scripted_plateau_step loss_scripted_score
  reduce_lr_on_plateau_def is_better_def reduce_lr_def print_def steps_def final_save_def
  save_def out_fpath default_fpath makedirs_def open_w_def add_gzip_to_tar_def epochs_upto
  float_of_real_small in_float_range_small

text \<open>
  \<^verbatim>\<open>run\<close> calls \<^verbatim>\<open>_temp_save\<close> with \<^verbatim>\<open>best_valid_loss\<close>, which it never assigns after
  \<^verbatim>\<open>float("inf")\<close>. Against that bound every loss that is neither the infinity nor a NaN is
  an improvement, whatever the earlier epochs have reached.
\<close>

lemma temp_save_from_infinity:
  "snd (temp_save p PInf s w world) =
     (if loss s = PInf \<or> loss s = NaN then world else torch_save p w world)"
  by (cases "loss s") (simp_all add: temp_save_def)

text \<open>The two handlers of the loop: an interrupt ends it, an early stop does not.\<close>

lemma epoch_loop_interrupt:
  "epoch_body ext args tr dv fid b epoch st = (Some KeyboardInterrupt, st')
   \<Longrightarrow> epoch_loop ext args tr dv fid b (epoch # later) st
       = (None, print [Print_line ''Interrupting training...''] st')"
  by simp

lemma epoch_loop_early_stop:
  "epoch_body ext args tr dv fid b epoch st = (Some EarlyStopException, st')
   \<Longrightarrow> epoch_loop ext args tr dv fid b (epoch # later) st
       = epoch_loop ext args tr dv fid b later
           (print [Print_line ''Reached plateau for too long, stopping.''] st')"
  by simp

text \<open>
  Claim C1 fails on the code. A run of four epochs whose dev losses are 2.0, 1.5, 1.8 and 1.2
  (the weights of the scripted backend count the optimizer steps, one per epoch) writes the
  checkpoint in every epoch, the third one included, whose dev loss 1.8 is above the 1.5 of
  the second; the call after the loop writes the last weights once more.
\<close>

theorem run_writes_checkpoint_at_every_epoch:
  "marks (trace (wd (snd (run (scripted (losses [Fin (5/2), Fin 2, Fin (3/2), Fin (9/5), Fin (6/5)]))
       toy_persistence (default_args\<lparr>n_epochs := 4, fpath := ''out/model.tar''\<rparr>)
       one_batch one_batch ''/tmp/ckpt'' toy_tagger empty_world))))
   = [Wrote 1, Dev_loss (Fin 2), Wrote 2, Dev_loss (Fin (3/2)), Wrote 3, Dev_loss (Fin (9/5)),
      Wrote 4, Dev_loss (Fin (6/5)), Wrote 4, Said ''Saved !'']"
  by (simp add: run_unfold)

text \<open>
  Claim C4 fails on the code. With a learning rate below \<^verbatim>\<open>min_lr\<close> and a patience of one
  epoch, the second epoch raises \<^verbatim>\<open>EarlyStopException\<close>. The handler prints its message, and
  the third and the fourth epoch are trained and evaluated all the same (the fourth raises
  again); only then does \<^verbatim>\<open>run\<close> reach the final save.
\<close>

theorem run_goes_on_after_early_stop:
  "marks (trace (wd (snd (run (scripted (losses [Fin 1, Fin 1, Fin 2, Fin 3, Fin 4]))
       toy_persistence
       (default_args\<lparr>lr := 1 / 2000, min_lr := 1 / 1000, lr_patience := 1, lr_grace_periode := 1,
                      n_epochs := 4, fpath := ''out/model.tar''\<rparr>)
       one_batch one_batch ''/tmp/ckpt'' toy_tagger empty_world))))
   = [Wrote 1, Dev_loss (Fin 1),
      Wrote 2, Dev_loss (Fin 2), Said ''Reached plateau for too long, stopping.'',
      Wrote 3, Dev_loss (Fin 3),
      Wrote 4, Dev_loss (Fin 4), Said ''Reached plateau for too long, stopping.'',
      Wrote 4, Said ''Saved !'']"
  by (simp add: run_unfold)

text \<open>
  Claim C3 fails on the code. The learning rate starts at twice \<^verbatim>\<open>min_lr\<close> with the factor
  1/2, and the dev loss never improves after the first epoch. At the end of the fourth epoch
  the count of bad epochs has reached the patience and the learning rate equals \<^verbatim>\<open>min_lr\<close>;
  no exception was raised in these four epochs (the test of \<^verbatim>\<open>run\<close> is
  \<^verbatim>\<open>lr_scheduler.lr < min_lr\<close>), and the fifth epoch runs.
\<close>

theorem run_no_early_stop_at_min_lr:
  "(let args = default_args\<lparr>lr := 2 / 1000, min_lr := 1 / 1000, lr_factor := 1 / 2, lr_patience := 1,
                            lr_grace_periode := 1, n_epochs := 5, fpath := ''out/model.tar''\<rparr>;
        ext = scripted (losses [Fin 1, Fin 1, Fin 2, Fin 3, Fin 4, Fin 5]);
        after4 = epoch_loop ext args one_batch one_batch ''/tmp/ckpt'' PInf [1, 2, 3, 4]
                   (run_init args toy_tagger empty_world)
    in fst after4 = None
       \<and> steps (lr_sched (snd after4)) = 1 \<and> lr_patience args = 1
       \<and> optimizer_lr (lr_sched (snd after4)) = 1 / 1000 \<and> min_lr args = 1 / 1000
       \<and> marks (trace (wd (snd (run ext toy_persistence args one_batch one_batch ''/tmp/ckpt''
                                  toy_tagger empty_world))))
         = [Wrote 1, Dev_loss (Fin 1), Wrote 2, Dev_loss (Fin 2), Wrote 3, Dev_loss (Fin 3),
            Wrote 4, Dev_loss (Fin 4), Wrote 5, Dev_loss (Fin 5), Wrote 5, Said ''Saved !''])"
  by (simp add: run_unfold)

text \<open>
  Claim C8 fails on the code for the default path. No checkpoint is written in a run of two
  epochs whose dev loss is infinite. The handler of FileNotFoundError prints that no model
  was saved and the weights stay those of the last epoch, but \<^verbatim>\<open>save\<close> then raises
  FileNotFoundError: the directory name of \<^verbatim>\<open>model.tar\<close> is empty, \<^verbatim>\<open>os.path.isdir\<close> does not
  find it and \<^verbatim>\<open>os.makedirs\<close> cannot make it. No archive is written.
\<close>

theorem run_default_path_raises:
  "(let r = run (scripted (losses [PInf, PInf, PInf])) toy_persistence (default_args\<lparr>n_epochs := 2\<rparr>)
              one_batch one_batch ''/tmp/ckpt'' toy_tagger empty_world
    in fst r = Some FileNotFoundError
       \<and> marks (trace (wd (snd r)))
           = [Dev_loss PInf, Dev_loss PInf, Said ''No model was saved during training'']
       \<and> files (wd (snd r)) ''model.tar'' = None
       \<and> model (tagger (snd r)) = 2)"
  by (simp add: run_unfold)

text \<open>
  The same run with a path that names a directory ends as claim C8 says: the message, the
  weights of the last epoch kept, and the archive written with them.
\<close>

lemma run_directory_path_saves:
  "(let r = run (scripted (losses [PInf, PInf, PInf])) toy_persistence
              (default_args\<lparr>n_epochs := 2, fpath := ''out/model.tar''\<rparr>)
              one_batch one_batch ''/tmp/ckpt'' toy_tagger empty_world
    in fst r = None
       \<and> marks (trace (wd (snd r)))
          = [Dev_loss PInf, Dev_loss PInf, Said ''No model was saved during training'', Said ''Saved !'']
       \<and> load_state_dict (case files (wd (snd r)) ''out/model.tar'' of Some (Tar tar) \<Rightarrow> tar | _ \<Rightarrow> [])
          = Inr 2
       \<and> model (tagger (snd r)) = 2)"
  by (simp add: run_unfold load_state_dict_def getmember_def)

end
